theory Spec2Isabelle
  imports Complex_Main
begin

section \<open>Peru Regional Telemetry: the data pipeline of utils.py\<close>

text \<open>
  The embedding follows \<^verbatim>\<open>src/utils.py\<close>, \<^verbatim>\<open>src/views.py\<close> and \<^verbatim>\<open>src/app.py\<close>.
  Python exceptions are values of \<open>error\<close>; a function that can raise returns
  \<open>error + 'a\<close>. The functions of pandas, requests, Streamlit and matplotlib that the
  code calls are modelled by what they do with the values the code passes them.
\<close>

subsection \<open>Exceptions\<close>

text \<open>
  Python's own exceptions, and the classes of \<^verbatim>\<open>requests.exceptions\<close> that the handlers
  of \<^verbatim>\<open>fetch_data\<close> name. \<open>TooManyRedirects\<close> stands for the classes of that library that
  no handler names.
\<close>

datatype error =
  KeyError | ValueError | IndexError | TypeError | OverflowError | UnboundLocalError
| HTTPError | ConnectionError | TooManyRedirects | RequestException | JSONDecodeError

definition bind_err :: "error + 'a \<Rightarrow> ('a \<Rightarrow> error + 'b) \<Rightarrow> error + 'b" where
  "bind_err r f = (case r of Inl e \<Rightarrow> Inl e | Inr v \<Rightarrow> f v)"

subsection \<open>The raw payload\<close>

text \<open>
  The provider's \<^verbatim>\<open>data_1h\<close> section is a JSON object of arrays, one array per
  field. Only the five fields of \<^verbatim>\<open>target_columns\<close> are ever read, so the section is
  a record of five optional arrays: \<open>None\<close> is an absent key. The time array holds
  strings, the four others numbers; any cell may be \<^verbatim>\<open>null\<close>. A number is the exact
  value of what the JSON decoder returns, a finite float or an integer.
\<close>

record hourly =
  h_time :: "string option list option"
  h_temperature :: "rat option list option"
  h_felttemperature :: "rat option list option"
  h_precipitation :: "rat option list option"
  h_convective_precipitation :: "rat option list option"

text \<open>
  A JSON object of the provider is an association list from keys to values; a value is
  a string (as under \<^verbatim>\<open>error_message\<close>) or an hourly section. What \<^verbatim>\<open>response.json()\<close>
  returns is any JSON value: such an object, an array, a string, a number, a truth
  value or \<^verbatim>\<open>null\<close>.
\<close>

datatype jvalue = Text string | Hourly hourly

type_synonym payload = "(string \<times> jvalue) list"

datatype decoded =
  JObject payload
| JArray "decoded list"
| JString string
| JNumber rat
| JBool bool
| JNull

subsection \<open>Frames\<close>

text \<open>
  A timestamp is pandas' \<^verbatim>\<open>datetime64[ns]\<close>: nanoseconds since the epoch, without a
  time zone; \<^verbatim>\<open>NaT\<close> is \<open>None\<close>. A calendar date is the number of whole days since the
  epoch.
\<close>

type_synonym timestamp = int
type_synonym date = int

definition ns_per_day :: int where
  "ns_per_day = 86400000000000"

definition date_of :: "timestamp \<Rightarrow> date" where
  "date_of t = t div ns_per_day"

text \<open>
  A cell of a numeric column: a number, the float \<^verbatim>\<open>NaN\<close>, or the object \<^verbatim>\<open>None\<close>, which
  only a column of dtype \<^verbatim>\<open>object\<close> holds. \<^verbatim>\<open>NaN\<close> and \<^verbatim>\<open>None\<close> are both missing values
  for pandas (\<^verbatim>\<open>isna\<close>); other libraries tell them apart.
\<close>

datatype cell = Num rat | NaN | PyNone

fun numbers :: "cell list \<Rightarrow> rat list" where
  "numbers [] = []"
| "numbers (Num v # cs) = v # numbers cs"
| "numbers (c # cs) = numbers cs"

text \<open>
  A number converts to float64 when it is below the value that rounds to \<open>2 ^ 1024\<close>;
  Python raises \<^verbatim>\<open>OverflowError\<close> for an integer at or beyond it. Every finite float is
  below it.
\<close>

definition float64_limit :: rat where
  "float64_limit = 2 ^ 1024 - 2 ^ 970"

definition fits_float64 :: "rat \<Rightarrow> bool" where
  "fits_float64 v = (\<bar>v\<bar> < float64_limit)"

text \<open>The frame right after \<^verbatim>\<open>pd.DataFrame(data_1h, columns=target_columns)\<close>.\<close>

record raw_frame =
  r_time :: "string option list"
  r_temperature :: "cell list"
  r_felttemperature :: "cell list"
  r_precipitation :: "cell list"
  r_convective_precipitation :: "cell list"

text \<open>The frame \<^verbatim>\<open>transform_data\<close> returns: the five columns and the two smoothed ones.\<close>

record frame =
  time :: "timestamp option list"
  temperature :: "cell list"
  felttemperature :: "cell list"
  precipitation :: "cell list"
  convective_precipitation :: "cell list"
  smooth_temperature :: "cell list"
  smooth_felttemperature :: "cell list"

subsection \<open>pandas: the frame constructor\<close>

text \<open>
  \<^verbatim>\<open>pd.DataFrame(d, columns=cols)\<close> on a dict of arrays selects the keys named in
  \<^verbatim>\<open>cols\<close>. The arrays that are present must have one length, else it raises
  \<^verbatim>\<open>ValueError\<close>; that length is the number of rows (zero when no key is present).
  A key of \<^verbatim>\<open>cols\<close> that the dict lacks becomes an object column of \<^verbatim>\<open>NaN\<close>. An array
  of numbers and \<^verbatim>\<open>null\<close> becomes a float column with \<^verbatim>\<open>NaN\<close> for \<^verbatim>\<open>null\<close>; an array in
  which every cell is \<^verbatim>\<open>null\<close> stays an object column of \<^verbatim>\<open>None\<close>.
\<close>

definition present_lengths :: "hourly \<Rightarrow> nat list" where
  "present_lengths h =
     (case h_time h of None \<Rightarrow> [] | Some c \<Rightarrow> [length c]) @
     (case h_temperature h of None \<Rightarrow> [] | Some c \<Rightarrow> [length c]) @
     (case h_felttemperature h of None \<Rightarrow> [] | Some c \<Rightarrow> [length c]) @
     (case h_precipitation h of None \<Rightarrow> [] | Some c \<Rightarrow> [length c]) @
     (case h_convective_precipitation h of None \<Rightarrow> [] | Some c \<Rightarrow> [length c])"

definition column_or_nan :: "nat \<Rightarrow> 'a option list option \<Rightarrow> 'a option list" where
  "column_or_nan n c = (case c of None \<Rightarrow> replicate n None | Some cells \<Rightarrow> cells)"

definition numeric_column :: "nat \<Rightarrow> rat option list option \<Rightarrow> cell list" where
  "numeric_column n c =
     (case c of
        None \<Rightarrow> replicate n NaN
      | Some cells \<Rightarrow>
          if list_all (\<lambda>x. x = None) cells then map (\<lambda>x. PyNone) cells
          else map (\<lambda>x. case x of None \<Rightarrow> NaN | Some v \<Rightarrow> Num v) cells)"

definition DataFrame :: "jvalue \<Rightarrow> error + raw_frame" where
  "DataFrame v =
     (case v of
        Text s \<Rightarrow> Inl ValueError
      | Hourly h \<Rightarrow>
          (case present_lengths h of
             [] \<Rightarrow> Inr \<lparr>r_time = [], r_temperature = [], r_felttemperature = [],
                        r_precipitation = [], r_convective_precipitation = []\<rparr>
           | n # ns \<Rightarrow>
               if \<not> list_all (\<lambda>m. m = n) ns then Inl ValueError
               else Inr \<lparr>r_time = column_or_nan n (h_time h),
                         r_temperature = numeric_column n (h_temperature h),
                         r_felttemperature = numeric_column n (h_felttemperature h),
                         r_precipitation = numeric_column n (h_precipitation h),
                         r_convective_precipitation =
                           numeric_column n (h_convective_precipitation h)\<rparr>))"

subsection \<open>pandas: parsing the time column\<close>

text \<open>
  \<^verbatim>\<open>pd.to_datetime\<close> parses each string of the column; its parser is a parameter
  \<open>parse\<close> of the model, with \<open>None\<close> for a string it rejects (\<^verbatim>\<open>ValueError\<close>).
  A missing cell becomes \<^verbatim>\<open>NaT\<close>.
\<close>

fun to_datetime :: "(string \<Rightarrow> timestamp option) \<Rightarrow> string option list
    \<Rightarrow> error + timestamp option list" where
  "to_datetime parse [] = Inr []"
| "to_datetime parse (None # cs) =
     bind_err (to_datetime parse cs) (\<lambda>ts. Inr (None # ts))"
| "to_datetime parse (Some s # cs) =
     (case parse s of
        None \<Rightarrow> Inl ValueError
      | Some t \<Rightarrow> bind_err (to_datetime parse cs) (\<lambda>ts. Inr (Some t # ts)))"

subsection \<open>pandas: the rolling mean\<close>

text \<open>
  \<^verbatim>\<open>s.rolling(w, min_periods=m).mean()\<close> first converts the column to float64, which
  raises \<^verbatim>\<open>OverflowError\<close> for an integer that float64 cannot hold. The window of row
  \<open>i\<close> is the rows \<open>i + 1 - w\<close> (or 0) to \<open>i\<close>; the result at \<open>i\<close> is \<^verbatim>\<open>NaN\<close> when the
  window holds fewer than \<open>m\<close> numbers (or none), and otherwise the mean of the numbers
  of the window as pandas computes it: in float64, from a running sum over the rows
  seen so far. That arithmetic is the parameter \<open>calc\<close>, which gets the size of the
  window and the rows up to \<open>i\<close>; nothing is assumed of the value it gives.
\<close>

definition window :: "nat \<Rightarrow> 'a list \<Rightarrow> nat \<Rightarrow> 'a list" where
  "window w xs i = drop (Suc i - w) (take (Suc i) xs)"

definition rolling_cell :: "nat \<Rightarrow> nat \<Rightarrow> (nat \<Rightarrow> cell list \<Rightarrow> rat) \<Rightarrow> cell list \<Rightarrow> nat \<Rightarrow> cell" where
  "rolling_cell w min_periods calc xs i =
     (let nobs = length (numbers (window w xs i)) in
      if min_periods \<le> nobs \<and> 0 < nobs then Num (calc w (take (Suc i) xs)) else NaN)"

definition rolling_mean :: "nat \<Rightarrow> nat \<Rightarrow> (nat \<Rightarrow> cell list \<Rightarrow> rat) \<Rightarrow> cell list
    \<Rightarrow> error + cell list" where
  "rolling_mean w min_periods calc xs =
     (if \<not> list_all fits_float64 (numbers xs) then Inl OverflowError
      else Inr (map (rolling_cell w min_periods calc xs) [0..<length xs]))"

subsection \<open>transform_data\<close>

text \<open>
  \<^verbatim>\<open>data["data_1h"]\<close> raises \<^verbatim>\<open>KeyError\<close> on a dict without the key and \<^verbatim>\<open>TypeError\<close>
  on a value that is no dict.
\<close>

definition transform_data :: "(string \<Rightarrow> timestamp option) \<Rightarrow> (nat \<Rightarrow> cell list \<Rightarrow> rat)
    \<Rightarrow> decoded \<Rightarrow> error + frame" where
  "transform_data parse calc data =
     (case data of
        JObject d \<Rightarrow>
          (case map_of d ''data_1h'' of
             None \<Rightarrow> Inl KeyError
           | Some data_1h \<Rightarrow>
               bind_err (DataFrame data_1h) (\<lambda>df.
               bind_err (to_datetime parse (r_time df)) (\<lambda>ts.
               bind_err (rolling_mean 3 1 calc (r_temperature df)) (\<lambda>st.
               bind_err (rolling_mean 3 1 calc (r_felttemperature df)) (\<lambda>sf.
               Inr \<lparr>time = ts,
                    temperature = r_temperature df,
                    felttemperature = r_felttemperature df,
                    precipitation = r_precipitation df,
                    convective_precipitation = r_convective_precipitation df,
                    smooth_temperature = st,
                    smooth_felttemperature = sf\<rparr>)))))
      | JArray l \<Rightarrow> Inl TypeError
      | JString s \<Rightarrow> Inl TypeError
      | JNumber v \<Rightarrow> Inl TypeError
      | JBool b \<Rightarrow> Inl TypeError
      | JNull \<Rightarrow> Inl TypeError)"

text \<open>
  When \<^verbatim>\<open>transform_data\<close> returns a frame for an hourly section: the arrays present
  have one length, every time string parses, and the numbers of the two smoothed fields
  convert to float64.
\<close>

definition lengths_agree :: "hourly \<Rightarrow> bool" where
  "lengths_agree h =
     (case present_lengths h of [] \<Rightarrow> True | n # ns \<Rightarrow> list_all (\<lambda>m. m = n) ns)"

definition times_parse :: "(string \<Rightarrow> timestamp option) \<Rightarrow> hourly \<Rightarrow> bool" where
  "times_parse parse h =
     (case h_time h of
        None \<Rightarrow> True
      | Some cells \<Rightarrow>
          list_all (\<lambda>c. case c of None \<Rightarrow> True | Some s \<Rightarrow> parse s \<noteq> None) cells)"

definition values_fit :: "rat option list option \<Rightarrow> bool" where
  "values_fit c =
     (case c of
        None \<Rightarrow> True
      | Some cells \<Rightarrow>
          list_all (\<lambda>x. case x of None \<Rightarrow> True | Some v \<Rightarrow> fits_float64 v) cells)"

definition smoothed_fit :: "hourly \<Rightarrow> bool" where
  "smoothed_fit h = (values_fit (h_temperature h) \<and> values_fit (h_felttemperature h))"

definition row_count :: "hourly \<Rightarrow> nat" where
  "row_count h = (case present_lengths h of [] \<Rightarrow> 0 | n # ns \<Rightarrow> n)"

subsection \<open>fetch_data: the request and its handlers\<close>

text \<open>
  \<open>is_a e c\<close>: the exception \<open>e\<close> is caught by \<^verbatim>\<open>except c\<close>. Every class of
  \<^verbatim>\<open>requests.exceptions\<close> is a \<^verbatim>\<open>RequestException\<close>; Python's own exceptions are not.
\<close>

fun request_class :: "error \<Rightarrow> bool" where
  "request_class HTTPError = True"
| "request_class ConnectionError = True"
| "request_class TooManyRedirects = True"
| "request_class RequestException = True"
| "request_class JSONDecodeError = True"
| "request_class e = False"

definition is_a :: "error \<Rightarrow> error \<Rightarrow> bool" where
  "is_a e c = (if c = RequestException then request_class e else e = c)"

text \<open>
  What the network does with one request: \<^verbatim>\<open>requests.get\<close> raises a connection
  error, or raises another request exception, or returns a response with a status code
  and a body that \<^verbatim>\<open>response.json()\<close> can decode or not. \<^verbatim>\<open>HTTPError\<close> is raised by
  \<^verbatim>\<open>raise_for_status\<close> only, for the statuses 400 to 599.
\<close>

datatype body = Unparseable | Json decoded

datatype outcome = ConnectionFailed | RequestFailed | Response nat body

definition requests_get :: "outcome \<Rightarrow> error + (nat \<times> body)" where
  "requests_get net =
     (case net of
        ConnectionFailed \<Rightarrow> Inl ConnectionError
      | RequestFailed \<Rightarrow> Inl TooManyRedirects
      | Response s b \<Rightarrow> Inr (s, b))"

definition raise_for_status :: "nat \<times> body \<Rightarrow> error + unit" where
  "raise_for_status response =
     (if 400 \<le> fst response \<and> fst response < 600 then Inl HTTPError else Inr ())"

definition json :: "nat \<times> body \<Rightarrow> error + decoded" where
  "json response = (case snd response of Unparseable \<Rightarrow> Inl JSONDecodeError | Json d \<Rightarrow> Inr d)"

text \<open>
  \<^verbatim>\<open>"error_message" in data\<close>: a key of a dict, an element of a list, a substring of a
  string; \<^verbatim>\<open>TypeError\<close> on a number, a truth value and \<^verbatim>\<open>None\<close>, which are not
  iterable. \<^verbatim>\<open>data['error_message']\<close>: the value under the key of a dict; \<^verbatim>\<open>TypeError\<close> on
  a list and on a string, whose indices are integers.
\<close>

fun is_prefix :: "'a list \<Rightarrow> 'a list \<Rightarrow> bool" where
  "is_prefix [] ys = True"
| "is_prefix (x # xs) [] = False"
| "is_prefix (x # xs) (y # ys) = (x = y \<and> is_prefix xs ys)"

fun substring :: "'a list \<Rightarrow> 'a list \<Rightarrow> bool" where
  "substring xs [] = (xs = [])"
| "substring xs (y # ys) = (is_prefix xs (y # ys) \<or> substring xs ys)"

definition error_message_in :: "decoded \<Rightarrow> error + bool" where
  "error_message_in data =
     (case data of
        JObject d \<Rightarrow> Inr (map_of d ''error_message'' \<noteq> None)
      | JArray l \<Rightarrow> Inr (List.member l (JString ''error_message''))
      | JString s \<Rightarrow> Inr (substring ''error_message'' s)
      | JNumber v \<Rightarrow> Inl TypeError
      | JBool b \<Rightarrow> Inl TypeError
      | JNull \<Rightarrow> Inl TypeError)"

definition error_message_of :: "decoded \<Rightarrow> error + jvalue" where
  "error_message_of data =
     (case data of
        JObject d \<Rightarrow> (case map_of d ''error_message'' of None \<Rightarrow> Inl KeyError | Some m \<Rightarrow> Inr m)
      | JArray l \<Rightarrow> Inl TypeError
      | JString s \<Rightarrow> Inl TypeError
      | JNumber v \<Rightarrow> Inl TypeError
      | JBool b \<Rightarrow> Inl TypeError
      | JNull \<Rightarrow> Inl TypeError)"

text \<open>The messages \<^verbatim>\<open>fetch_data\<close> passes to \<^verbatim>\<open>st.error\<close>, one constructor each.\<close>

datatype diagnostic =
  System_Error
| Authorization_Error
| Quota_Exceeded
| Server_Error nat
| API_Error
| Connection_Error
| Request_Error
| API_Message jvalue
| Data_Error

datatype param = S string | N rat | I int

datatype effect =
  HttpGet string "(string \<times> param) list"
| StError diagnostic
| Print

definition METEODATA_URL :: string where
  "METEODATA_URL = ''https://my.meteoblue.com/packages/basic-1h''"

definition meteo_params :: "string \<Rightarrow> rat \<Rightarrow> rat \<Rightarrow> (string \<times> param) list" where
  "meteo_params API_KEY lat lon =
     [(''apikey'', S API_KEY), (''lat'', N lat), (''lon'', N lon), (''format'', S ''json''),
      (''forecast_days'', I 7), (''temperature'', S ''C''), (''windspeed'', S ''ms-1''),
      (''precipitationamount'', S ''mm'')]"

text \<open>
  The body of \<^verbatim>\<open>fetch_data\<close>. The result is the list of effects in the order they
  happen, and either the value returned (\<open>Inr\<close>: the decoded body or \<^verbatim>\<open>None\<close>) or the
  exception that leaves the function (\<open>Inl\<close>). \<open>API_KEY\<close> is the module constant; the
  empty string is the falsy key. The second \<^verbatim>\<open>try\<close> block holds the decoding, the test
  for \<^verbatim>\<open>error_message\<close> and the reading of the message; its one handler is for
  \<^verbatim>\<open>JSONDecodeError\<close>.
\<close>

definition fetch_data :: "string \<Rightarrow> outcome \<Rightarrow> rat \<Rightarrow> rat
    \<Rightarrow> effect list \<times> (error + decoded option)" where
  "fetch_data API_KEY net lat lon =
     (if API_KEY = [] then ([StError System_Error], Inr None)
      else
        let request = HttpGet METEODATA_URL (meteo_params API_KEY lat lon) in
        (case (case requests_get net of
                 Inl e \<Rightarrow> Inl (e, None)
               | Inr response \<Rightarrow>
                   (case raise_for_status response of
                      Inl e \<Rightarrow> Inl (e, Some response) | Inr u \<Rightarrow> Inr response)) of
           Inl (e, bound) \<Rightarrow>
             if is_a e HTTPError then
               (case bound of
                  None \<Rightarrow> ([request], Inl UnboundLocalError)
                | Some response \<Rightarrow>
                    let status_code = fst response in
                    ([request,
                      StError (if status_code = 403 then Authorization_Error
                               else if status_code = 429 then Quota_Exceeded
                               else if 500 \<le> status_code then Server_Error status_code
                               else API_Error),
                      Print], Inr None))
             else if is_a e ConnectionError then
               ([request, StError Connection_Error], Inr None)
             else if is_a e RequestException then
               ([request, StError Request_Error], Inr None)
             else ([request], Inl e)
         | Inr response \<Rightarrow>
             (case bind_err (json response) (\<lambda>data.
                   bind_err (error_message_in data) (\<lambda>found.
                   if found then bind_err (error_message_of data) (\<lambda>m. Inr (Inl m))
                   else Inr (Inr data))) of
                Inl e \<Rightarrow>
                  if is_a e JSONDecodeError then ([request, StError Data_Error], Inr None)
                  else ([request], Inl e)
              | Inr (Inl m) \<Rightarrow> ([request, StError (API_Message m)], Inr None)
              | Inr (Inr data) \<Rightarrow> ([request], Inr (Some data)))))"

definition is_request :: "effect \<Rightarrow> bool" where
  "is_request x = (case x of HttpGet u ps \<Rightarrow> True | StError d \<Rightarrow> False | Print \<Rightarrow> False)"

definition requests_made :: "effect list \<Rightarrow> effect list" where
  "requests_made effs = filter is_request effs"

fun diagnostics :: "effect list \<Rightarrow> diagnostic list" where
  "diagnostics [] = []"
| "diagnostics (StError d # effs) = d # diagnostics effs"
| "diagnostics (x # effs) = diagnostics effs"

text \<open>
  The failure kinds of the specification, and the kind each message of the code stands
  for. The specification has one kind, \<open>RequestError\<close>, for the two messages
  \<^verbatim>\<open>API Error\<close> and \<^verbatim>\<open>Request Error\<close>.
\<close>

datatype failure_kind =
  ConfigurationError
| AuthorizationError
| QuotaExceededError
| ProviderUnavailableError
| RequestError
| ConnectivityError
| DecodeError
| ProviderBusinessError

fun kind_of :: "diagnostic \<Rightarrow> failure_kind" where
  "kind_of System_Error = ConfigurationError"
| "kind_of Authorization_Error = AuthorizationError"
| "kind_of Quota_Exceeded = QuotaExceededError"
| "kind_of (Server_Error s) = ProviderUnavailableError"
| "kind_of API_Error = RequestError"
| "kind_of Connection_Error = ConnectivityError"
| "kind_of Request_Error = RequestError"
| "kind_of (API_Message m) = ProviderBusinessError"
| "kind_of Data_Error = DecodeError"

text \<open>
  What the caller and the user get from one call: the kinds of the messages shown, and
  the value returned.
\<close>

definition tagged :: "effect list \<times> (error + decoded option)
    \<Rightarrow> failure_kind list \<times> (error + decoded option)" where
  "tagged r = (map kind_of (diagnostics (fst r)), snd r)"

subsection \<open>fetch_data: the cache decorator\<close>

text \<open>
  \<^verbatim>\<open>@st.cache_data(ttl="1d")\<close>: a cache from the arguments to the value returned, with
  the time the entry was made, in seconds. An entry is valid while the clock is below
  its creation time plus the time to live. A hit returns the stored value, shows the
  stored messages again and does not run the function; a miss runs it and stores what
  it returned. A call that raises stores nothing.
\<close>

record 'v entry =
  stored :: 'v
  messages :: "diagnostic list"
  created :: nat

type_synonym ('k, 'v) cache = "'k \<Rightarrow> 'v entry option"

definition ttl_1d :: nat where
  "ttl_1d = 24 * 60 * 60"

definition cache_data :: "nat \<Rightarrow> ('k \<Rightarrow> effect list \<times> (error + 'v))
    \<Rightarrow> ('k, 'v) cache \<Rightarrow> nat \<Rightarrow> 'k
    \<Rightarrow> (effect list \<times> (error + 'v)) \<times> ('k, 'v) cache" where
  "cache_data ttl f c now k =
     (let miss =
        (case f k of
           (effs, Inl e) \<Rightarrow> ((effs, Inl e), c)
         | (effs, Inr v) \<Rightarrow>
             ((effs, Inr v),
              c(k \<mapsto> \<lparr>stored = v, messages = diagnostics effs, created = now\<rparr>)))
      in case c k of
           None \<Rightarrow> miss
         | Some en \<Rightarrow>
             if now < created en + ttl
             then ((map StError (messages en), Inr (stored en)), c)
             else miss)"

definition fetch_data_cached :: "string \<Rightarrow> (rat \<times> rat, decoded option) cache \<Rightarrow> nat
    \<Rightarrow> outcome \<Rightarrow> rat \<Rightarrow> rat
    \<Rightarrow> (effect list \<times> (error + decoded option))
        \<times> (rat \<times> rat, decoded option) cache" where
  "fetch_data_cached API_KEY c now net lat lon =
     cache_data ttl_1d (\<lambda>(la, lo). fetch_data API_KEY net la lo) c now (lat, lon)"

subsection \<open>Columns of a frame by name\<close>

datatype column = Stamps "timestamp option list" | Values "cell list"

text \<open>\<^verbatim>\<open>df[name]\<close>: the column of that name, \<^verbatim>\<open>KeyError\<close> when the frame has none.\<close>

definition getitem :: "frame \<Rightarrow> string \<Rightarrow> error + column" where
  "getitem df name =
     (if name = ''time'' then Inr (Stamps (time df))
      else if name = ''temperature'' then Inr (Values (temperature df))
      else if name = ''felttemperature'' then Inr (Values (felttemperature df))
      else if name = ''precipitation'' then Inr (Values (precipitation df))
      else if name = ''convective_precipitation'' then Inr (Values (convective_precipitation df))
      else if name = ''smooth_temperature'' then Inr (Values (smooth_temperature df))
      else if name = ''smooth_felttemperature'' then Inr (Values (smooth_felttemperature df))
      else Inl KeyError)"


subsection \<open>plot_data\<close>

text \<open>
  The argument \<^verbatim>\<open>y_cols: list[str] | str\<close>, and what is drawn on the axes: one artist
  per call of \<^verbatim>\<open>ax.plot\<close> or \<^verbatim>\<open>ax.bar\<close>, with its x data, its y data and its label.
  The label \<^verbatim>\<open>df[y_col].name\<close> is the name of the column.

  matplotlib converts the data to float arrays: a number that float64 cannot hold
  raises \<^verbatim>\<open>OverflowError\<close>. \<^verbatim>\<open>ax.plot\<close> reads \<^verbatim>\<open>None\<close> as \<^verbatim>\<open>NaN\<close>; \<^verbatim>\<open>ax.bar\<close> computes
  with the cells as they are and raises \<^verbatim>\<open>TypeError\<close> on \<^verbatim>\<open>None\<close>.
\<close>

datatype y_columns = Str string | Lst "string list"

datatype artist = Plot column column string | Bar column column string

record figure =
  artists :: "artist list"
  xlabel :: string
  ylabel :: string
  major_formatter :: string

definition holds_none :: "column \<Rightarrow> bool" where
  "holds_none col = (case col of Stamps ts \<Rightarrow> False | Values cs \<Rightarrow> List.member cs PyNone)"

definition fits_column :: "column \<Rightarrow> bool" where
  "fits_column col =
     (case col of Stamps ts \<Rightarrow> True | Values cs \<Rightarrow> list_all fits_float64 (numbers cs))"

definition ax_plot :: "column \<Rightarrow> column \<Rightarrow> string \<Rightarrow> error + artist" where
  "ax_plot x y label =
     (if fits_column x \<and> fits_column y then Inr (Plot x y label) else Inl OverflowError)"

definition ax_bar :: "column \<Rightarrow> column \<Rightarrow> string \<Rightarrow> error + artist" where
  "ax_bar x height label =
     (if holds_none x \<or> holds_none height then Inl TypeError
      else if fits_column x \<and> fits_column height then Inr (Bar x height label)
      else Inl OverflowError)"

fun plot_lines :: "frame \<Rightarrow> string \<Rightarrow> string list \<Rightarrow> error + artist list" where
  "plot_lines df x_col [] = Inr []"
| "plot_lines df x_col (y_col # y_cols) =
     bind_err (getitem df x_col) (\<lambda>x.
     bind_err (getitem df y_col) (\<lambda>y.
     bind_err (ax_plot x y y_col) (\<lambda>line.
     bind_err (plot_lines df x_col y_cols) (\<lambda>rest.
     Inr (line # rest)))))"

definition plot_data :: "frame \<Rightarrow> string \<Rightarrow> y_columns \<Rightarrow> string \<Rightarrow> string \<Rightarrow> string \<Rightarrow> string
    \<Rightarrow> error + figure" where
  "plot_data df x_col y_cols x_label y_label graph_type date_format =
     (let y_cols = (case y_cols of Str s \<Rightarrow> [s] | Lst l \<Rightarrow> l) in
      bind_err
        (if graph_type = ''line'' then plot_lines df x_col y_cols
         else if graph_type = ''bar'' then
           bind_err (getitem df x_col) (\<lambda>x.
             case y_cols of
               [] \<Rightarrow> Inl IndexError
             | y_col # others \<Rightarrow>
                 bind_err (getitem df y_col) (\<lambda>y.
                 bind_err (ax_bar x y y_col) (\<lambda>bars. Inr [bars])))
         else Inr [])
        (\<lambda>drawn. Inr \<lparr>artists = drawn, xlabel = x_label, ylabel = y_label,
                       major_formatter = date_format\<rparr>))"

subsection \<open>display_metrics\<close>














subsection \<open>constants.py\<close>

text \<open>The degree sign of the labels is written as its two bytes in UTF-8.\<close>

definition degree_C :: string where
  "degree_C = [CHR 0xC2, CHR 0xB0, CHR ''C'']"

definition DATE_FMT_OVERVIEW :: string where
  "DATE_FMT_OVERVIEW = ''%d-%m-%Y''"


definition LABEL_TEMP :: string where
  "LABEL_TEMP = ''Temperature ('' @ degree_C @ '')''"

definition LABEL_TOTAL_PREP :: string where
  "LABEL_TOTAL_PREP = ''Total Precipitation (mm)''"


definition LABEL_DATE :: string where
  "LABEL_DATE = ''Date''"



subsection \<open>views.py: the two content views\<close>



subsection \<open>app.py: the filter of the detail view\<close>

text \<open>
  \<^verbatim>\<open>df[df['time'].dt.date == selected_date]\<close>: the date of each cell of the time
  column (\<^verbatim>\<open>NaT\<close> has none), the comparison with the selected date, which gives one
  truth value per row (false at \<^verbatim>\<open>NaT\<close>), and the selection of the rows of every column
  where the mask is true.
\<close>

definition dt_date :: "timestamp option list \<Rightarrow> date option list" where
  "dt_date ts = map (map_option date_of) ts"

definition eq_mask :: "date option list \<Rightarrow> date \<Rightarrow> bool list" where
  "eq_mask ds selected_date = map (\<lambda>d. d = Some selected_date) ds"

definition select_rows :: "bool list \<Rightarrow> 'a list \<Rightarrow> 'a list" where
  "select_rows keep cells = map fst (filter snd (zip cells keep))"

definition getitem_mask :: "frame \<Rightarrow> bool list \<Rightarrow> frame" where
  "getitem_mask df keep =
     \<lparr>time = select_rows keep (time df),
      temperature = select_rows keep (temperature df),
      felttemperature = select_rows keep (felttemperature df),
      precipitation = select_rows keep (precipitation df),
      convective_precipitation = select_rows keep (convective_precipitation df),
      smooth_temperature = select_rows keep (smooth_temperature df),
      smooth_felttemperature = select_rows keep (smooth_felttemperature df)\<rparr>"

definition filter_by_date :: "frame \<Rightarrow> date \<Rightarrow> frame" where
  "filter_by_date df selected_date =
     getitem_mask df (eq_mask (dt_date (time df)) selected_date)"

text \<open>
  The records of a frame, one per row, in the order of the rows: the seven cells of
  the row.
\<close>

record hour_record =
  at_time :: "timestamp option"
  at_temperature :: cell
  at_felttemperature :: cell
  at_precipitation :: cell
  at_convective_precipitation :: cell
  at_smooth_temperature :: cell
  at_smooth_felttemperature :: cell

definition n_rows :: "frame \<Rightarrow> nat" where
  "n_rows df = length (time df)"

definition record_at :: "frame \<Rightarrow> nat \<Rightarrow> hour_record" where
  "record_at df i =
     \<lparr>at_time = time df ! i,
      at_temperature = temperature df ! i,
      at_felttemperature = felttemperature df ! i,
      at_precipitation = precipitation df ! i,
      at_convective_precipitation = convective_precipitation df ! i,
      at_smooth_temperature = smooth_temperature df ! i,
      at_smooth_felttemperature = smooth_felttemperature df ! i\<rparr>"

definition records :: "frame \<Rightarrow> hour_record list" where
  "records df = map (record_at df) [0..<n_rows df]"

definition rectangular :: "frame \<Rightarrow> bool" where
  "rectangular df =
     (length (temperature df) = n_rows df \<and>
      length (felttemperature df) = n_rows df \<and>
      length (precipitation df) = n_rows df \<and>
      length (convective_precipitation df) = n_rows df \<and>
      length (smooth_temperature df) = n_rows df \<and>
      length (smooth_felttemperature df) = n_rows df)"

subsection \<open>Example data\<close>

text \<open>
  Three hours of a forecast, two on 2024-01-01 and one on 2024-01-02, and a parser
  that knows the three time strings. For the arithmetic of the rolling mean the
  examples take the mean of the numbers of the window in exact arithmetic: on the
  numbers of the examples every sum and every quotient is a number that float64 holds
  exactly.
\<close>

definition example_parse :: "string \<Rightarrow> timestamp option" where
  "example_parse = map_of
     [(''2024-01-01 00:00'', 1704067200000000000),
      (''2024-01-01 01:00'', 1704070800000000000),
      (''2024-01-02 00:00'', 1704153600000000000)]"

definition exact_mean :: "nat \<Rightarrow> cell list \<Rightarrow> rat" where
  "exact_mean w rows =
     (let vs = numbers (drop (length rows - w) rows) in sum_list vs / of_nat (length vs))"

definition example_hourly :: hourly where
  "example_hourly =
     \<lparr>h_time = Some [Some ''2024-01-01 00:00'', Some ''2024-01-01 01:00'',
                     Some ''2024-01-02 00:00''],
      h_temperature = Some [Some 10, Some 12, Some 17],
      h_felttemperature = Some [Some 9, Some 11, Some 13],
      h_precipitation = Some [Some 0, Some (1 / 2), Some 0],
      h_convective_precipitation = Some [Some 0, Some 0, Some 0]\<rparr>"

definition example_payload :: payload where
  "example_payload = [(''data_1h'', Hourly example_hourly)]"

definition example_frame :: frame where
  "example_frame =
     \<lparr>time = [Some 1704067200000000000, Some 1704070800000000000,
              Some 1704153600000000000],
      temperature = [Num 10, Num 12, Num 17],
      felttemperature = [Num 9, Num 11, Num 13],
      precipitation = [Num 0, Num (1 / 2), Num 0],
      convective_precipitation = [Num 0, Num 0, Num 0],
      smooth_temperature = [Num 10, Num 11, Num 13],
      smooth_felttemperature = [Num 9, Num 10, Num 11]\<rparr>"

text \<open>The same payload without the field \<^verbatim>\<open>precipitation\<close>, and the frame built from it.\<close>

definition payload_without_precipitation :: payload where
  "payload_without_precipitation =
     [(''data_1h'', Hourly (example_hourly\<lparr>h_precipitation := None\<rparr>))]"

definition frame_without_precipitation :: frame where
  "frame_without_precipitation = example_frame\<lparr>precipitation := [NaN, NaN, NaN]\<rparr>"

text \<open>
  The same payload with the field \<^verbatim>\<open>precipitation\<close> present and \<^verbatim>\<open>null\<close> in every hour,
  and the frame built from it.
\<close>

definition payload_null_precipitation :: payload where
  "payload_null_precipitation =
     [(''data_1h'', Hourly (example_hourly\<lparr>h_precipitation := Some [None, None, None]\<rparr>))]"

definition frame_null_precipitation :: frame where
  "frame_null_precipitation = example_frame\<lparr>precipitation := [PyNone, PyNone, PyNone]\<rparr>"




text \<open>
  A first call for Cajamarca at second 100, with an empty cache and a provider that
  answers with the example payload.
\<close>

definition first_call :: "(effect list \<times> (error + decoded option))
    \<times> (rat \<times> rat, decoded option) cache" where
  "first_call =
     fetch_data_cached ''key'' (\<lambda>k. None) 100
       (Response 200 (Json (JObject example_payload))) (- 716 / 100) (- 7852 / 100)"

section \<open>Properties of the frame builder\<close>

subsection \<open>Numbers that float64 holds\<close>

lemma float64_limit_large: "1000000 < float64_limit"
proof -
  have "(2::rat) ^ 1024 = 2 ^ 970 * 2 ^ 54" by (simp add: power_add[symmetric])
  then have eq: "float64_limit = 2 ^ 970 * (2 ^ 54 - 1)"
    by (simp add: float64_limit_def algebra_simps)
  have a: "(1::rat) \<le> 2 ^ 970" by simp
  have b: "(1000000::rat) < 2 ^ 54 - 1" by simp
  have "(1000000::rat) = 1 * 1000000" by simp
  also have "\<dots> \<le> 2 ^ 970 * 1000000" using a by (intro mult_right_mono) simp_all
  also have "\<dots> < 2 ^ 970 * (2 ^ 54 - 1)" using b by (intro mult_strict_left_mono) simp_all
  finally show ?thesis by (simp only: eq)
qed

lemma fits_small: "\<bar>v\<bar> \<le> 1000000 \<Longrightarrow> fits_float64 v"
  using float64_limit_large by (simp add: fits_float64_def)

lemma numbers_empty_iff: "numbers cs = [] \<longleftrightarrow> (\<forall>v. Num v \<notin> set cs)"
proof (induction cs)
  case Nil
  then show ?case by simp
next
  case (Cons c cs)
  then show ?case by (cases c) auto
qed


lemma numbers_replicate_NaN: "numbers (replicate k NaN) = []"
  by (simp add: numbers_empty_iff)

subsection \<open>The rolling mean\<close>

lemma rolling_mean_length:
  "rolling_mean w m calc xs = Inr ys \<Longrightarrow> length ys = length xs"
  by (auto simp: rolling_mean_def split: if_splits)

lemma rolling_mean_returns:
  "(\<exists>ys. rolling_mean w m calc xs = Inr ys) \<longleftrightarrow> list_all fits_float64 (numbers xs)"
  by (simp add: rolling_mean_def)

lemma rolling_mean_nth:
  "rolling_mean w m calc xs = Inr ys \<Longrightarrow> i < length xs \<Longrightarrow>
   ys ! i = rolling_cell w m calc xs i"
  by (auto simp: rolling_mean_def split: if_splits)

lemma window_subset: "set (window w xs i) \<subseteq> set xs"
  unfolding window_def by (meson set_drop_subset set_take_subset subset_trans)

lemma rolling_cell_missing:
  assumes "numbers xs = []"
  shows "rolling_cell w m calc xs i = NaN"
proof -
  have "numbers (window w xs i) = []"
    using assms window_subset[of w xs i] by (auto simp: numbers_empty_iff)
  then show ?thesis by (simp add: rolling_cell_def)
qed

lemma rolling_mean_all_missing:
  assumes "numbers xs = []"
  shows "rolling_mean w m calc xs = Inr (replicate (length xs) NaN)"
proof -
  have "map (rolling_cell w m calc xs) [0..<length xs] = replicate (length xs) NaN"
    by (rule nth_equalityI) (simp_all add: rolling_cell_missing[OF assms])
  then show ?thesis using assms by (simp add: rolling_mean_def)
qed

text \<open>
  The smoothed cell of a row is a number exactly when its window holds a number: a
  missing cell of the window is skipped, and the mean is taken over the numbers that
  are left.
\<close>

lemma rolling_cell_number:
  "(\<exists>v. rolling_cell w (Suc 0) calc xs i = Num v) \<longleftrightarrow> numbers (window w xs i) \<noteq> []"
  by (cases "numbers (window w xs i)") (simp_all add: rolling_cell_def Let_def)

lemma rolling_mean_skips_missing:
  "rolling_mean 3 1 exact_mean [Num 10, NaN, Num 17] = Inr [Num 10, Num 10, Num (27 / 2)]"
  by (simp add: rolling_mean_def rolling_cell_def window_def exact_mean_def upt_rec fits_small)

subsection \<open>The frame that transform_data builds\<close>

lemma to_datetime_length: "to_datetime parse cs = Inr ts \<Longrightarrow> length ts = length cs"
proof (induction parse cs arbitrary: ts rule: to_datetime.induct)
  case (1 parse)
  then show ?case by simp
next
  case (2 parse cs)
  then show ?case by (auto simp: bind_err_def split: sum.splits)
next
  case (3 parse s cs)
  then show ?case by (auto simp: bind_err_def split: sum.splits option.splits)
qed

lemma to_datetime_all_missing:
  "to_datetime parse (replicate n None) = Inr (replicate n None)"
  by (induction n) (simp_all add: bind_err_def)

lemma to_datetime_returns:
  "(\<exists>ts. to_datetime parse cs = Inr ts) \<longleftrightarrow>
   list_all (\<lambda>c. case c of None \<Rightarrow> True | Some s \<Rightarrow> parse s \<noteq> None) cs"
proof (induction parse cs rule: to_datetime.induct)
  case (1 parse)
  then show ?case by simp
next
  case (2 parse cs)
  then show ?case by (auto simp: bind_err_def split: sum.splits)
next
  case (3 parse s cs)
  then show ?case by (cases "parse s") (auto simp: bind_err_def split: sum.splits)
qed

lemma transform_data_Inr:
  assumes "transform_data parse calc data = Inr df"
  obtains d v raw ts st sf where "data = JObject d" "map_of d ''data_1h'' = Some v"
    "DataFrame v = Inr raw"
    "to_datetime parse (r_time raw) = Inr ts"
    "rolling_mean 3 1 calc (r_temperature raw) = Inr st"
    "rolling_mean 3 1 calc (r_felttemperature raw) = Inr sf"
    "df = \<lparr>time = ts, temperature = r_temperature raw,
            felttemperature = r_felttemperature raw,
            precipitation = r_precipitation raw,
            convective_precipitation = r_convective_precipitation raw,
            smooth_temperature = st, smooth_felttemperature = sf\<rparr>"
  using assms
  by (auto simp: transform_data_def bind_err_def split: decoded.splits option.splits sum.splits)

lemma column_or_nan_length:
  "(case c of None \<Rightarrow> True | Some cells \<Rightarrow> length cells = n) \<Longrightarrow> length (column_or_nan n c) = n"
  by (simp add: column_or_nan_def split: option.splits)

lemma numeric_column_length:
  "(case c of None \<Rightarrow> True | Some cells \<Rightarrow> length cells = n) \<Longrightarrow> length (numeric_column n c) = n"
  by (simp add: numeric_column_def split: option.splits)

lemma numbers_numeric_column:
  "list_all fits_float64 (numbers (numeric_column n c)) \<longleftrightarrow> values_fit c"
proof (cases c)
  case None
  then show ?thesis by (simp add: numeric_column_def values_fit_def numbers_replicate_NaN)
next
  case (Some cells)
  have none: "numbers (map (\<lambda>x. PyNone) cells) = []"
    by (simp add: numbers_empty_iff image_iff)
  have all_none: "list_all (\<lambda>x. x = None) cells \<Longrightarrow>
      list_all (\<lambda>x. case x of None \<Rightarrow> True | Some v \<Rightarrow> fits_float64 v) cells"
    by (induction cells) auto
  have conv: "list_all fits_float64
        (numbers (map (\<lambda>x. case x of None \<Rightarrow> NaN | Some v \<Rightarrow> Num v) cells)) \<longleftrightarrow>
      list_all (\<lambda>x. case x of None \<Rightarrow> True | Some v \<Rightarrow> fits_float64 v) cells"
    by (induction cells) (auto split: option.splits)
  show ?thesis
    using Some none all_none conv by (simp add: numeric_column_def values_fit_def)
qed

lemma DataFrame_returns:
  "(\<exists>raw. DataFrame (Hourly h) = Inr raw) \<longleftrightarrow> lengths_agree h"
  by (simp add: DataFrame_def lengths_agree_def split: list.splits)

lemma DataFrame_Hourly:
  assumes "DataFrame (Hourly h) = Inr raw"
  shows "r_time raw = column_or_nan (row_count h) (h_time h)"
    and "r_temperature raw = numeric_column (row_count h) (h_temperature h)"
    and "r_felttemperature raw = numeric_column (row_count h) (h_felttemperature h)"
    and "r_precipitation raw = numeric_column (row_count h) (h_precipitation h)"
    and "r_convective_precipitation raw =
           numeric_column (row_count h) (h_convective_precipitation h)"
    and "length (r_time raw) = row_count h" and "length (r_temperature raw) = row_count h"
    and "length (r_felttemperature raw) = row_count h"
    and "length (r_precipitation raw) = row_count h"
    and "length (r_convective_precipitation raw) = row_count h"
proof -
  have cols: "r_time raw = column_or_nan (row_count h) (h_time h) \<and>
     r_temperature raw = numeric_column (row_count h) (h_temperature h) \<and>
     r_felttemperature raw = numeric_column (row_count h) (h_felttemperature h) \<and>
     r_precipitation raw = numeric_column (row_count h) (h_precipitation h) \<and>
     r_convective_precipitation raw =
           numeric_column (row_count h) (h_convective_precipitation h)"
  proof (cases "present_lengths h")
    case Nil
    then have "h_time h = None" "h_temperature h = None" "h_felttemperature h = None"
      "h_precipitation h = None" "h_convective_precipitation h = None"
      by (auto simp: present_lengths_def split: option.splits)
    moreover from Nil assms have "raw = \<lparr>r_time = [], r_temperature = [],
        r_felttemperature = [], r_precipitation = [], r_convective_precipitation = []\<rparr>"
      by (simp add: DataFrame_def)
    ultimately show ?thesis
      using Nil by (simp add: row_count_def column_or_nan_def numeric_column_def)
  next
    case (Cons n ns)
    with assms show ?thesis
      by (auto simp: DataFrame_def row_count_def split: if_splits)
  qed
  have all: "\<forall>m \<in> set (present_lengths h). m = row_count h"
  proof (cases "present_lengths h")
    case Nil
    then show ?thesis by simp
  next
    case (Cons n ns)
    with assms have "list_all (\<lambda>m. m = n) ns"
      by (auto simp: DataFrame_def split: if_splits)
    with Cons show ?thesis by (auto simp: row_count_def list_all_iff)
  qed
  have l1: "case h_time h of None \<Rightarrow> True | Some cells \<Rightarrow> length cells = row_count h"
    using all by (auto simp: present_lengths_def split: option.splits)
  have l2: "case h_temperature h of None \<Rightarrow> True | Some cells \<Rightarrow> length cells = row_count h"
    using all by (auto simp: present_lengths_def split: option.splits)
  have l3: "case h_felttemperature h of None \<Rightarrow> True
      | Some cells \<Rightarrow> length cells = row_count h"
    using all by (auto simp: present_lengths_def split: option.splits)
  have l4: "case h_precipitation h of None \<Rightarrow> True | Some cells \<Rightarrow> length cells = row_count h"
    using all by (auto simp: present_lengths_def split: option.splits)
  have l5: "case h_convective_precipitation h of None \<Rightarrow> True
      | Some cells \<Rightarrow> length cells = row_count h"
    using all by (auto simp: present_lengths_def split: option.splits)
  from cols show "r_time raw = column_or_nan (row_count h) (h_time h)"
    and "r_temperature raw = numeric_column (row_count h) (h_temperature h)"
    and "r_felttemperature raw = numeric_column (row_count h) (h_felttemperature h)"
    and "r_precipitation raw = numeric_column (row_count h) (h_precipitation h)"
    and "r_convective_precipitation raw =
           numeric_column (row_count h) (h_convective_precipitation h)"
    by simp_all
  then show "length (r_time raw) = row_count h" and "length (r_temperature raw) = row_count h"
    and "length (r_felttemperature raw) = row_count h"
    and "length (r_precipitation raw) = row_count h"
    and "length (r_convective_precipitation raw) = row_count h"
    using column_or_nan_length[OF l1] numeric_column_length[OF l2]
      numeric_column_length[OF l3] numeric_column_length[OF l4] numeric_column_length[OF l5]
    by simp_all
qed

lemma DataFrame_lengths:
  assumes "DataFrame v = Inr raw"
  shows "length (r_temperature raw) = length (r_time raw)"
    and "length (r_felttemperature raw) = length (r_time raw)"
    and "length (r_precipitation raw) = length (r_time raw)"
    and "length (r_convective_precipitation raw) = length (r_time raw)"
proof -
  obtain h where v: "v = Hourly h" using assms by (cases v) (simp_all add: DataFrame_def)
  from DataFrame_Hourly(6-10)[OF assms[unfolded v]]
  show "length (r_temperature raw) = length (r_time raw)"
    and "length (r_felttemperature raw) = length (r_time raw)"
    and "length (r_precipitation raw) = length (r_time raw)"
    and "length (r_convective_precipitation raw) = length (r_time raw)"
    by simp_all
qed

lemma transform_data_rectangular:
  assumes "transform_data parse calc data = Inr df"
  shows "rectangular df"
proof -
  from assms obtain v raw ts st sf where raw: "DataFrame v = Inr raw"
    and ts: "to_datetime parse (r_time raw) = Inr ts"
    and st: "rolling_mean 3 1 calc (r_temperature raw) = Inr st"
    and sf: "rolling_mean 3 1 calc (r_felttemperature raw) = Inr sf"
    and df: "df = \<lparr>time = ts, temperature = r_temperature raw,
            felttemperature = r_felttemperature raw,
            precipitation = r_precipitation raw,
            convective_precipitation = r_convective_precipitation raw,
            smooth_temperature = st, smooth_felttemperature = sf\<rparr>"
    by (rule transform_data_Inr)
  show ?thesis
    using DataFrame_lengths[OF raw] to_datetime_length[OF ts]
      rolling_mean_length[OF st] rolling_mean_length[OF sf]
    by (simp add: df rectangular_def n_rows_def)
qed

lemma transform_data_returns:
  assumes "map_of d ''data_1h'' = Some (Hourly h)"
  shows "(\<exists>df. transform_data parse calc (JObject d) = Inr df) \<longleftrightarrow>
     lengths_agree h \<and> times_parse parse h \<and> smoothed_fit h"
proof (cases "lengths_agree h")
  case False
  then have "\<exists>e. DataFrame (Hourly h) = Inl e"
    using DataFrame_returns[of h] by (cases "DataFrame (Hourly h)") auto
  then show ?thesis using assms False by (auto simp: transform_data_def bind_err_def)
next
  case True
  then obtain raw where raw: "DataFrame (Hourly h) = Inr raw"
    using DataFrame_returns[of h] by blast
  note cols = DataFrame_Hourly[OF raw]
  have t: "(\<exists>ts. to_datetime parse (r_time raw) = Inr ts) \<longleftrightarrow> times_parse parse h"
  proof (cases "h_time h")
    case None
    then show ?thesis
      using cols(1) by (simp add: column_or_nan_def to_datetime_all_missing times_parse_def)
  next
    case (Some cells)
    then show ?thesis
      using cols(1) to_datetime_returns[of parse cells]
      by (simp add: column_or_nan_def times_parse_def del: not_None_eq)
  qed
  have a: "(\<exists>st. rolling_mean 3 1 calc (r_temperature raw) = Inr st) \<longleftrightarrow>
      values_fit (h_temperature h)"
    using cols(2) by (simp only: rolling_mean_returns numbers_numeric_column)
  have b: "(\<exists>sf. rolling_mean 3 1 calc (r_felttemperature raw) = Inr sf) \<longleftrightarrow>
      values_fit (h_felttemperature h)"
    using cols(3) by (simp only: rolling_mean_returns numbers_numeric_column)
  have "(\<exists>df. transform_data parse calc (JObject d) = Inr df) \<longleftrightarrow>
      (\<exists>ts. to_datetime parse (r_time raw) = Inr ts) \<and>
      (\<exists>st. rolling_mean 3 1 calc (r_temperature raw) = Inr st) \<and>
      (\<exists>sf. rolling_mean 3 1 calc (r_felttemperature raw) = Inr sf)"
    using assms raw by (auto simp: transform_data_def bind_err_def split: sum.splits)
  then show ?thesis using True t a b by (simp add: smoothed_fit_def)
qed

lemma transform_data_columns:
  assumes "map_of d ''data_1h'' = Some (Hourly h)"
    and "transform_data parse calc (JObject d) = Inr df"
  shows "n_rows df = row_count h"
    and "h_time h = None \<Longrightarrow> time df = replicate (n_rows df) None"
    and "h_temperature h = None \<Longrightarrow> temperature df = replicate (n_rows df) NaN"
    and "h_temperature h = None \<Longrightarrow> smooth_temperature df = replicate (n_rows df) NaN"
    and "h_felttemperature h = None \<Longrightarrow> felttemperature df = replicate (n_rows df) NaN"
    and "h_felttemperature h = None \<Longrightarrow> smooth_felttemperature df = replicate (n_rows df) NaN"
    and "h_precipitation h = None \<Longrightarrow> precipitation df = replicate (n_rows df) NaN"
    and "h_convective_precipitation h = None \<Longrightarrow>
           convective_precipitation df = replicate (n_rows df) NaN"
proof -
  from assms obtain raw ts st sf where raw: "DataFrame (Hourly h) = Inr raw"
    and ts: "to_datetime parse (r_time raw) = Inr ts"
    and st: "rolling_mean 3 1 calc (r_temperature raw) = Inr st"
    and sf: "rolling_mean 3 1 calc (r_felttemperature raw) = Inr sf"
    and df: "df = \<lparr>time = ts, temperature = r_temperature raw,
            felttemperature = r_felttemperature raw,
            precipitation = r_precipitation raw,
            convective_precipitation = r_convective_precipitation raw,
            smooth_temperature = st, smooth_felttemperature = sf\<rparr>"
    by (auto elim!: transform_data_Inr)
  note cols = DataFrame_Hourly[OF raw]
  show rows: "n_rows df = row_count h"
    using to_datetime_length[OF ts] cols(6) by (simp add: df n_rows_def)
  { assume "h_time h = None"
    then have "r_time raw = replicate (row_count h) None"
      using cols(1) by (simp add: column_or_nan_def)
    then show "time df = replicate (n_rows df) None"
      using ts rows by (simp add: df to_datetime_all_missing) }
  { assume "h_temperature h = None"
    then have r: "r_temperature raw = replicate (row_count h) NaN"
      using cols(2) by (simp add: numeric_column_def)
    then show "temperature df = replicate (n_rows df) NaN" using rows by (simp add: df)
    from r st show "smooth_temperature df = replicate (n_rows df) NaN"
      using rows by (simp add: df rolling_mean_all_missing numbers_replicate_NaN) }
  { assume "h_felttemperature h = None"
    then have r: "r_felttemperature raw = replicate (row_count h) NaN"
      using cols(3) by (simp add: numeric_column_def)
    then show "felttemperature df = replicate (n_rows df) NaN" using rows by (simp add: df)
    from r sf show "smooth_felttemperature df = replicate (n_rows df) NaN"
      using rows by (simp add: df rolling_mean_all_missing numbers_replicate_NaN) }
  { assume "h_precipitation h = None"
    then show "precipitation df = replicate (n_rows df) NaN"
      using cols(4) rows by (simp add: df numeric_column_def) }
  { assume "h_convective_precipitation h = None"
    then show "convective_precipitation df = replicate (n_rows df) NaN"
      using cols(5) rows by (simp add: df numeric_column_def) }
qed

subsection \<open>The example frames\<close>

lemma example_rolling:
  "rolling_mean 3 1 exact_mean [Num 10, Num 12, Num 17] = Inr [Num 10, Num 11, Num 13]"
  "rolling_mean 3 1 exact_mean [Num 9, Num 11, Num 13] = Inr [Num 9, Num 10, Num 11]"
  by (simp_all add: rolling_mean_def rolling_cell_def window_def exact_mean_def upt_rec
      fits_small)

lemma example_frame_built:
  "transform_data example_parse exact_mean (JObject example_payload) = Inr example_frame"
proof -
  have "DataFrame (Hourly example_hourly) =
      Inr \<lparr>r_time = [Some ''2024-01-01 00:00'', Some ''2024-01-01 01:00'',
                      Some ''2024-01-02 00:00''],
           r_temperature = [Num 10, Num 12, Num 17],
           r_felttemperature = [Num 9, Num 11, Num 13],
           r_precipitation = [Num 0, Num (1 / 2), Num 0],
           r_convective_precipitation = [Num 0, Num 0, Num 0]\<rparr>"
    by (simp add: example_hourly_def DataFrame_def present_lengths_def column_or_nan_def
        numeric_column_def)
  then show ?thesis
    by (simp add: transform_data_def example_payload_def bind_err_def example_parse_def
        example_rolling example_frame_def del: One_nat_def)
qed

lemma frame_without_precipitation_built:
  "transform_data example_parse exact_mean (JObject payload_without_precipitation) =
     Inr frame_without_precipitation"
proof -
  have "DataFrame (Hourly (example_hourly\<lparr>h_precipitation := None\<rparr>)) =
      Inr \<lparr>r_time = [Some ''2024-01-01 00:00'', Some ''2024-01-01 01:00'',
                      Some ''2024-01-02 00:00''],
           r_temperature = [Num 10, Num 12, Num 17],
           r_felttemperature = [Num 9, Num 11, Num 13],
           r_precipitation = [NaN, NaN, NaN],
           r_convective_precipitation = [Num 0, Num 0, Num 0]\<rparr>"
    by (simp add: example_hourly_def DataFrame_def present_lengths_def column_or_nan_def
        numeric_column_def numeral_3_eq_3)
  then show ?thesis
    by (simp add: transform_data_def payload_without_precipitation_def bind_err_def
        example_parse_def example_rolling example_frame_def frame_without_precipitation_def
        del: One_nat_def)
qed

lemma frame_null_precipitation_built:
  "transform_data example_parse exact_mean (JObject payload_null_precipitation) =
     Inr frame_null_precipitation"
proof -
  have "DataFrame (Hourly (example_hourly\<lparr>h_precipitation := Some [None, None, None]\<rparr>)) =
      Inr \<lparr>r_time = [Some ''2024-01-01 00:00'', Some ''2024-01-01 01:00'',
                      Some ''2024-01-02 00:00''],
           r_temperature = [Num 10, Num 12, Num 17],
           r_felttemperature = [Num 9, Num 11, Num 13],
           r_precipitation = [PyNone, PyNone, PyNone],
           r_convective_precipitation = [Num 0, Num 0, Num 0]\<rparr>"
    by (simp add: example_hourly_def DataFrame_def present_lengths_def column_or_nan_def
        numeric_column_def)
  then show ?thesis
    by (simp add: transform_data_def payload_null_precipitation_def bind_err_def
        example_parse_def example_rolling example_frame_def frame_null_precipitation_def
        del: One_nat_def)
qed

section \<open>The frame builder and its schema\<close>

text \<open>
  Claim C1, as stated: a payload that lacks \<^verbatim>\<open>data_1h\<close> or one of the five fields
  makes \<^verbatim>\<open>transform_data\<close> fail, and no frame is produced. The code does not check the
  fields. At the example payload without \<^verbatim>\<open>precipitation\<close> it returns a frame of three
  rows whose precipitation column is \<^verbatim>\<open>NaN\<close> in every row.
\<close>

theorem transform_data_missing_field_counterexample:
  "(case map_of payload_without_precipitation ''data_1h'' of
      Some (Hourly h) \<Rightarrow> h_precipitation h = None
    | Some (Text s) \<Rightarrow> False
    | None \<Rightarrow> False) \<and>
   transform_data example_parse exact_mean (JObject payload_without_precipitation) =
     Inr frame_without_precipitation"
  by (simp add: frame_without_precipitation_built)
     (simp add: payload_without_precipitation_def)

text \<open>
  Claim C1, amended: when the key \<^verbatim>\<open>data_1h\<close> is absent, \<^verbatim>\<open>transform_data\<close> fails
  with \<^verbatim>\<open>KeyError\<close> and produces no frame. When \<^verbatim>\<open>data_1h\<close> holds an hourly section,
  the absence of a field is no error: \<^verbatim>\<open>transform_data\<close> returns a frame exactly when
  the arrays that are present have one length, every time string that is present
  parses, and the numbers present under temperature and felt temperature convert to
  float64, and an absent field meets each of the three conditions. The frame has as
  many rows as the arrays present (none when all five are absent), and the column of
  an absent field is missing in every row, as is the smoothed column of an absent
  temperature or felt temperature.
\<close>

theorem transform_data_schema:
  "(map_of d ''data_1h'' = None \<longrightarrow> transform_data parse calc (JObject d) = Inl KeyError) \<and>
   (map_of d ''data_1h'' = Some (Hourly h) \<longrightarrow>
      ((\<exists>df. transform_data parse calc (JObject d) = Inr df) \<longleftrightarrow>
         lengths_agree h \<and> times_parse parse h \<and> smoothed_fit h) \<and>
      (\<forall>df. transform_data parse calc (JObject d) = Inr df \<longrightarrow>
         n_rows df = row_count h \<and>
         (h_time h = None \<longrightarrow> time df = replicate (n_rows df) None) \<and>
         (h_temperature h = None \<longrightarrow>
            temperature df = replicate (n_rows df) NaN \<and>
            smooth_temperature df = replicate (n_rows df) NaN) \<and>
         (h_felttemperature h = None \<longrightarrow>
            felttemperature df = replicate (n_rows df) NaN \<and>
            smooth_felttemperature df = replicate (n_rows df) NaN) \<and>
         (h_precipitation h = None \<longrightarrow> precipitation df = replicate (n_rows df) NaN) \<and>
         (h_convective_precipitation h = None \<longrightarrow>
            convective_precipitation df = replicate (n_rows df) NaN)))"
proof (intro conjI impI allI)
  assume "map_of d ''data_1h'' = None"
  then show "transform_data parse calc (JObject d) = Inl KeyError"
    by (simp add: transform_data_def)
next
  assume "map_of d ''data_1h'' = Some (Hourly h)"
  then show "(\<exists>df. transform_data parse calc (JObject d) = Inr df) \<longleftrightarrow>
         lengths_agree h \<and> times_parse parse h \<and> smoothed_fit h"
    by (rule transform_data_returns)
next
  fix df
  assume a: "map_of d ''data_1h'' = Some (Hourly h)"
    and b: "transform_data parse calc (JObject d) = Inr df"
  note cols = transform_data_columns[OF a b]
  show "n_rows df = row_count h" by (rule cols(1))
  { assume "h_time h = None"
    then show "time df = replicate (n_rows df) None" by (rule cols(2)) }
  { assume c: "h_temperature h = None"
    then show "temperature df = replicate (n_rows df) NaN" by (rule cols(3))
    from c show "smooth_temperature df = replicate (n_rows df) NaN" by (rule cols(4)) }
  { assume c: "h_felttemperature h = None"
    then show "felttemperature df = replicate (n_rows df) NaN" by (rule cols(5))
    from c show "smooth_felttemperature df = replicate (n_rows df) NaN" by (rule cols(6)) }
  { assume "h_precipitation h = None"
    then show "precipitation df = replicate (n_rows df) NaN" by (rule cols(7)) }
  { assume "h_convective_precipitation h = None"
    then show "convective_precipitation df = replicate (n_rows df) NaN" by (rule cols(8)) }
qed

theorem transform_data_schema_witness:
  "transform_data example_parse exact_mean (JObject []) = Inl KeyError \<and>
   (\<exists>df. transform_data example_parse exact_mean (JObject payload_without_precipitation) =
      Inr df) \<and>
   n_rows frame_without_precipitation = 3 \<and>
   precipitation frame_without_precipitation = replicate 3 NaN"
proof -
  let ?h = "example_hourly\<lparr>h_precipitation := None\<rparr>"
  have a: "map_of payload_without_precipitation ''data_1h'' = Some (Hourly ?h)"
    by (simp add: payload_without_precipitation_def)
  have e: "map_of ([] :: payload) ''data_1h'' = None" by simp
  have ok: "lengths_agree ?h \<and> times_parse example_parse ?h \<and> smoothed_fit ?h"
    by (simp add: lengths_agree_def times_parse_def smoothed_fit_def values_fit_def
        present_lengths_def example_hourly_def example_parse_def fits_small)
  have absent: "h_precipitation ?h = None" by simp
  have rows: "row_count ?h = 3"
    by (simp add: row_count_def present_lengths_def example_hourly_def)
  from transform_data_schema[where d = "[]" and parse = example_parse and calc = exact_mean] e
  have first: "transform_data example_parse exact_mean (JObject []) = Inl KeyError" by blast
  from transform_data_schema[where d = payload_without_precipitation and h = ?h
      and parse = example_parse and calc = exact_mean] a
  have iff: "(\<exists>df. transform_data example_parse exact_mean
        (JObject payload_without_precipitation) = Inr df) \<longleftrightarrow>
      lengths_agree ?h \<and> times_parse example_parse ?h \<and> smoothed_fit ?h"
    and cols: "\<forall>df. transform_data example_parse exact_mean
        (JObject payload_without_precipitation) = Inr df \<longrightarrow>
      n_rows df = row_count ?h \<and>
      (h_precipitation ?h = None \<longrightarrow> precipitation df = replicate (n_rows df) NaN)"
    by blast+
  from iff ok have built: "\<exists>df. transform_data example_parse exact_mean
        (JObject payload_without_precipitation) = Inr df" by blast
  from cols frame_without_precipitation_built absent rows
  have "n_rows frame_without_precipitation = 3 \<and>
     precipitation frame_without_precipitation = replicate 3 NaN" by force
  with first built show ?thesis by blast
qed

section \<open>The day filter of the detail view\<close>

lemma zip_as_map:
  "length xs = length ys \<Longrightarrow> zip xs ys = map (\<lambda>i. (xs ! i, ys ! i)) [0..<length xs]"
  by (rule nth_equalityI) simp_all

lemma select_rows_indices:
  assumes "length cells = length keep"
  shows "select_rows keep cells = map (\<lambda>i. cells ! i) (filter (\<lambda>i. keep ! i) [0..<length keep])"
  using assms by (simp add: select_rows_def zip_as_map filter_map comp_def)

lemma map_nth_indices: "map (\<lambda>j. f (ix ! j)) [0..<length ix] = map f ix"
  by (rule nth_equalityI) simp_all

lemma records_getitem_mask:
  assumes "rectangular df" "length keep = n_rows df"
  shows "records (getitem_mask df keep) =
     map (record_at df) (filter (\<lambda>i. keep ! i) [0..<n_rows df])"
proof -
  define ix where "ix = filter (\<lambda>i. keep ! i) [0..<length keep]"
  have sel: "length cells = n_rows df \<Longrightarrow> select_rows keep cells = map (\<lambda>i. cells ! i) ix"
    for cells :: "'a list"
    using assms(2) by (simp add: select_rows_indices ix_def)
  have cols: "time (getitem_mask df keep) = map (\<lambda>i. time df ! i) ix"
    "temperature (getitem_mask df keep) = map (\<lambda>i. temperature df ! i) ix"
    "felttemperature (getitem_mask df keep) = map (\<lambda>i. felttemperature df ! i) ix"
    "precipitation (getitem_mask df keep) = map (\<lambda>i. precipitation df ! i) ix"
    "convective_precipitation (getitem_mask df keep) =
       map (\<lambda>i. convective_precipitation df ! i) ix"
    "smooth_temperature (getitem_mask df keep) = map (\<lambda>i. smooth_temperature df ! i) ix"
    "smooth_felttemperature (getitem_mask df keep) =
       map (\<lambda>i. smooth_felttemperature df ! i) ix"
    using assms(1) by (simp_all add: getitem_mask_def rectangular_def sel n_rows_def)
  have rows: "n_rows (getitem_mask df keep) = length ix"
    by (simp add: n_rows_def cols)
  have at: "j < length ix \<Longrightarrow> record_at (getitem_mask df keep) j = record_at df (ix ! j)" for j
    by (simp add: record_at_def cols)
  have "records (getitem_mask df keep) = map (\<lambda>j. record_at df (ix ! j)) [0..<length ix]"
    unfolding records_def rows by (rule map_cong) (simp_all add: at)
  also have "\<dots> = map (record_at df) ix" by (rule map_nth_indices)
  finally show ?thesis using assms(2) by (simp add: ix_def)
qed

lemma records_filter_by_date:
  assumes "rectangular df"
  shows "records (filter_by_date df d) =
     filter (\<lambda>r. map_option date_of (at_time r) = Some d) (records df)"
proof -
  let ?keep = "eq_mask (dt_date (time df)) d"
  have len: "length ?keep = n_rows df"
    by (simp add: eq_mask_def dt_date_def n_rows_def)
  have same: "filter (\<lambda>i. ?keep ! i) [0..<n_rows df] =
      filter (\<lambda>i. map_option date_of (at_time (record_at df i)) = Some d) [0..<n_rows df]"
    by (rule filter_cong) (simp_all add: eq_mask_def dt_date_def n_rows_def record_at_def)
  show ?thesis
    unfolding filter_by_date_def records_getitem_mask[OF assms len] same
    by (simp add: records_def filter_map comp_def)
qed

text \<open>
  Claim C6: for every frame that \<^verbatim>\<open>transform_data\<close> returns and every calendar date
  \<open>d\<close>, the records of the frame filtered by \<open>d\<close> are exactly the records of the frame
  whose time has the date \<open>d\<close>, in the order they have in the frame. A record whose
  time is missing has no date and is not selected.
\<close>

theorem filter_by_date_subsequence:
  assumes "transform_data parse calc data = Inr df"
  shows "records (filter_by_date df d) =
     filter (\<lambda>r. map_option date_of (at_time r) = Some d) (records df)"
  using assms by (intro records_filter_by_date transform_data_rectangular)

lemma example_dates:
  "date_of 1704067200000000000 = 19723" "date_of 1704070800000000000 = 19723"
  "date_of 1704153600000000000 = 19724"
  by (simp_all add: date_of_def ns_per_day_def)

theorem filter_by_date_subsequence_witness:
  "records (filter_by_date example_frame 19723) =
     [record_at example_frame 0, record_at example_frame 1]"
proof -
  have rows: "n_rows example_frame = 3" by (simp add: n_rows_def example_frame_def)
  have recs: "records example_frame =
      [record_at example_frame 0, record_at example_frame (Suc 0),
       record_at example_frame (Suc (Suc 0))]"
    by (simp add: records_def rows upt_rec)
  have times: "at_time (record_at example_frame 0) = Some 1704067200000000000"
    "at_time (record_at example_frame (Suc 0)) = Some 1704070800000000000"
    "at_time (record_at example_frame (Suc (Suc 0))) = Some 1704153600000000000"
    by (simp_all add: record_at_def example_frame_def)
  have "filter (\<lambda>r. map_option date_of (at_time r) = Some 19723) (records example_frame) =
      [record_at example_frame 0, record_at example_frame 1]"
    by (simp add: recs times example_dates)
  with filter_by_date_subsequence[OF example_frame_built, of 19723]
  show ?thesis by simp
qed

section \<open>The forecast client\<close>

lemma fetch_data_no_key:
  "fetch_data [] net lat lon = ([StError System_Error], Inr None)"
  by (simp add: fetch_data_def)

lemma fetch_data_connection_failed:
  "API_KEY \<noteq> [] \<Longrightarrow> fetch_data API_KEY ConnectionFailed lat lon =
     ([HttpGet METEODATA_URL (meteo_params API_KEY lat lon), StError Connection_Error], Inr None)"
  by (simp add: fetch_data_def requests_get_def is_a_def)

lemma fetch_data_request_failed:
  "API_KEY \<noteq> [] \<Longrightarrow> fetch_data API_KEY RequestFailed lat lon =
     ([HttpGet METEODATA_URL (meteo_params API_KEY lat lon), StError Request_Error], Inr None)"
  by (simp add: fetch_data_def requests_get_def is_a_def)

lemma fetch_data_http_error:
  "API_KEY \<noteq> [] \<Longrightarrow> 400 \<le> s \<Longrightarrow> s < 600 \<Longrightarrow>
   fetch_data API_KEY (Response s b) lat lon =
     ([HttpGet METEODATA_URL (meteo_params API_KEY lat lon),
       StError (if s = 403 then Authorization_Error
                else if s = 429 then Quota_Exceeded
                else if 500 \<le> s then Server_Error s
                else API_Error),
       Print], Inr None)"
  by (simp add: fetch_data_def requests_get_def raise_for_status_def is_a_def)

lemma fetch_data_unparseable:
  "API_KEY \<noteq> [] \<Longrightarrow> s < 400 \<or> 600 \<le> s \<Longrightarrow>
   fetch_data API_KEY (Response s Unparseable) lat lon =
     ([HttpGet METEODATA_URL (meteo_params API_KEY lat lon), StError Data_Error], Inr None)"
  by (auto simp: fetch_data_def requests_get_def raise_for_status_def json_def bind_err_def
      is_a_def)

lemma fetch_data_json:
  "API_KEY \<noteq> [] \<Longrightarrow> s < 400 \<or> 600 \<le> s \<Longrightarrow>
   fetch_data API_KEY (Response s (Json (JObject d))) lat lon =
     (case map_of d ''error_message'' of
        Some m \<Rightarrow> ([HttpGet METEODATA_URL (meteo_params API_KEY lat lon),
                     StError (API_Message m)], Inr None)
      | None \<Rightarrow> ([HttpGet METEODATA_URL (meteo_params API_KEY lat lon)],
                  Inr (Some (JObject d))))"
  by (auto simp: fetch_data_def requests_get_def raise_for_status_def json_def Let_def
      bind_err_def error_message_in_def error_message_of_def split: option.splits)

text \<open>
  A body that decodes to a value that is no object: the test for \<^verbatim>\<open>error_message\<close>, or
  the reading of the message after it, raises \<^verbatim>\<open>TypeError\<close>, which the handler for
  \<^verbatim>\<open>JSONDecodeError\<close> does not catch; a list or a string without \<^verbatim>\<open>error_message\<close> is
  returned as it is.
\<close>

lemma fetch_data_no_object:
  assumes "API_KEY \<noteq> []" "s < 400 \<or> 600 \<le> s" "\<forall>d. data \<noteq> JObject d"
  shows "fetch_data API_KEY (Response s (Json data)) lat lon =
     ([HttpGet METEODATA_URL (meteo_params API_KEY lat lon)],
      if (case data of JArray l \<Rightarrow> \<not> List.member l (JString ''error_message'')
          | JString t \<Rightarrow> \<not> substring ''error_message'' t | _ \<Rightarrow> False)
      then Inr (Some data) else Inl TypeError)"
  using assms
  by (cases data)
     (auto simp: fetch_data_def requests_get_def raise_for_status_def json_def Let_def
      bind_err_def error_message_in_def error_message_of_def is_a_def)

lemma fetch_data_cases:
  obtains (no_key) "API_KEY = []"
  | (connection) "API_KEY \<noteq> []" "net = ConnectionFailed"
  | (request) "API_KEY \<noteq> []" "net = RequestFailed"
  | (http_error) s b where "API_KEY \<noteq> []" "net = Response s b" "400 \<le> s" "s < 600"
  | (unparseable) s where "API_KEY \<noteq> []" "net = Response s Unparseable" "s < 400 \<or> 600 \<le> s"
  | (parsed) s d where "API_KEY \<noteq> []" "net = Response s (Json (JObject d))"
      "s < 400 \<or> 600 \<le> s"
  | (no_object) s data where "API_KEY \<noteq> []" "net = Response s (Json data)"
      "s < 400 \<or> 600 \<le> s" "\<forall>d. data \<noteq> JObject d"
proof (cases "API_KEY = []")
  case True then show ?thesis by (rule no_key)
next
  case key: False
  show ?thesis
  proof (cases net)
    case ConnectionFailed with key show ?thesis by (rule connection)
  next
    case RequestFailed with key show ?thesis by (rule request)
  next
    case (Response s b)
    show ?thesis
    proof (cases "400 \<le> s \<and> s < 600")
      case True with key Response show ?thesis by (intro http_error[of s b]) simp_all
    next
      case False
      then have out: "s < 400 \<or> 600 \<le> s" by auto
      show ?thesis
      proof (cases b)
        case Unparseable with key Response out show ?thesis by (intro unparseable[of s]) simp_all
      next
        case (Json data)
        show ?thesis
        proof (cases "\<exists>d. data = JObject d")
          case True
          then obtain d where "data = JObject d" by blast
          with key Response out Json show ?thesis by (intro parsed[of s d]) simp_all
        next
          case False
          with key Response out Json show ?thesis by (intro no_object[of s data]) simp_all
        qed
      qed
    qed
  qed
qed

lemma fetch_data_returns_or_TypeError:
  "(\<exists>r. snd (fetch_data API_KEY net lat lon) = Inr r) \<or>
   snd (fetch_data API_KEY net lat lon) = Inl TypeError"
proof (cases rule: fetch_data_cases[where API_KEY = API_KEY and net = net])
  case no_key then show ?thesis by (simp add: fetch_data_no_key)
next
  case connection then show ?thesis by (simp add: fetch_data_connection_failed)
next
  case request then show ?thesis by (simp add: fetch_data_request_failed)
next
  case (http_error s b) then show ?thesis by (simp add: fetch_data_http_error)
next
  case (unparseable s) then show ?thesis by (simp add: fetch_data_unparseable)
next
  case (parsed s d) then show ?thesis
    by (simp add: fetch_data_json split: option.splits)
next
  case (no_object s data) then show ?thesis by (simp add: fetch_data_no_object)
qed

lemma fetch_data_requests:
  assumes "API_KEY \<noteq> []"
  shows "requests_made (fst (fetch_data API_KEY net lat lon)) =
     [HttpGet METEODATA_URL (meteo_params API_KEY lat lon)]"
proof (cases rule: fetch_data_cases[where API_KEY = API_KEY and net = net])
  case no_key with assms show ?thesis by simp
next
  case connection then show ?thesis
    by (simp add: fetch_data_connection_failed requests_made_def is_request_def)
next
  case request then show ?thesis
    by (simp add: fetch_data_request_failed requests_made_def is_request_def)
next
  case (http_error s b) then show ?thesis
    by (simp add: fetch_data_http_error requests_made_def is_request_def)
next
  case (unparseable s) then show ?thesis
    by (simp add: fetch_data_unparseable requests_made_def is_request_def)
next
  case (parsed s d) then show ?thesis
    by (simp add: fetch_data_json requests_made_def is_request_def split: option.splits)
next
  case (no_object s data) then show ?thesis
    by (simp add: fetch_data_no_object requests_made_def is_request_def)
qed

lemma requests_made_messages: "requests_made (map StError ms) = []"
  by (induction ms) (simp_all add: requests_made_def is_request_def)

lemma cache_data_hit:
  "c k = Some en \<Longrightarrow> now < created en + ttl \<Longrightarrow>
   cache_data ttl f c now k = ((map StError (messages en), Inr (stored en)), c)"
  by (simp add: cache_data_def)

lemma cache_data_miss:
  "c k = None \<or> (\<exists>en. c k = Some en \<and> created en + ttl \<le> now) \<Longrightarrow>
   cache_data ttl f c now k =
     (case f k of
        (effs, Inl e) \<Rightarrow> ((effs, Inl e), c)
      | (effs, Inr v) \<Rightarrow>
          ((effs, Inr v), c(k \<mapsto> \<lparr>stored = v, messages = diagnostics effs, created = now\<rparr>)))"
  by (auto simp: cache_data_def)

lemma cache_data_cases:
  obtains (hit) en where "c k = Some en" "now < created en + ttl"
  | (miss) "c k = None \<or> (\<exists>en. c k = Some en \<and> created en + ttl \<le> now)"
proof (cases "c k")
  case None
  then show ?thesis by (intro miss) simp
next
  case (Some en)
  show ?thesis
  proof (cases "now < created en + ttl")
    case True
    with Some show ?thesis by (rule hit)
  next
    case False
    with Some show ?thesis by (intro miss) (simp add: not_less)
  qed
qed

lemma fetch_data_cached_first:
  assumes "fetch_data_cached API_KEY c0 t1 net1 lat lon = ((effs1, res1), c1)"
  obtains (raised) "res1 = Inl TypeError" "c1 = c0"
  | (returned) en where "c1 (lat, lon) = Some en" "res1 = Inr (stored en)"
      "requests_made effs1 \<noteq> [] \<Longrightarrow> created en = t1"
proof (cases rule: cache_data_cases[where c = c0 and k = "(lat, lon)" and now = t1 and ttl = ttl_1d])
  case (hit en)
  with assms have "effs1 = map StError (messages en)" "res1 = Inr (stored en)" "c1 = c0"
    by (simp_all add: fetch_data_cached_def cache_data_hit)
  with hit show ?thesis by (intro returned[of en]) (simp_all add: requests_made_messages)
next
  case miss
  obtain effs res where f: "fetch_data API_KEY net1 lat lon = (effs, res)"
    by (cases "fetch_data API_KEY net1 lat lon")
  from fetch_data_returns_or_TypeError[of API_KEY net1 lat lon] f
  consider r where "res = Inr r" | "res = Inl TypeError" by auto
  then show ?thesis
  proof cases
    case 1
    with assms miss f have "res1 = Inr r"
      "c1 = c0((lat, lon) \<mapsto> \<lparr>stored = r, messages = diagnostics effs, created = t1\<rparr>)"
      by (auto simp: fetch_data_cached_def cache_data_miss)
    then show ?thesis
      by (intro returned[of "\<lparr>stored = r, messages = diagnostics effs, created = t1\<rparr>"])
        simp_all
  next
    case 2
    with assms miss f have "res1 = Inl TypeError" "c1 = c0"
      by (auto simp: fetch_data_cached_def cache_data_miss)
    then show ?thesis by (rule raised)
  qed
qed



text \<open>
  Claim C7: when the API key is missing (the falsy, empty key), \<^verbatim>\<open>fetch_data\<close> reports
  the configuration error and returns \<^verbatim>\<open>None\<close> without any request to the network.
\<close>

theorem fetch_data_missing_key:
  "tagged (fetch_data [] net lat lon) = ([ConfigurationError], Inr None) \<and>
   requests_made (fst (fetch_data [] net lat lon)) = []"
  by (simp add: fetch_data_no_key tagged_def requests_made_def is_request_def)

text \<open>
  Claim C9 says that \<^verbatim>\<open>fetch_data\<close> never lets an exception reach its caller. The code
  does at a response with status 200 whose body is the JSON value \<^verbatim>\<open>null\<close>: the body
  decodes to \<^verbatim>\<open>None\<close>, the test \<^verbatim>\<open>"error_message" in data\<close> raises \<^verbatim>\<open>TypeError\<close>, and the
  one handler of that block is for \<^verbatim>\<open>JSONDecodeError\<close>. The request has been made, no
  message is shown, and the exception leaves the function, also through the cache,
  which stores nothing.
\<close>

theorem fetch_data_null_body:
  "fetch_data ''key'' (Response 200 (Json JNull)) (- 716 / 100) (- 7852 / 100) =
     ([HttpGet METEODATA_URL (meteo_params ''key'' (- 716 / 100) (- 7852 / 100))],
      Inl TypeError) \<and>
   snd (fst (fetch_data_cached ''key'' (\<lambda>k. None) 100 (Response 200 (Json JNull))
     (- 716 / 100) (- 7852 / 100))) = Inl TypeError"
proof -
  have "fetch_data ''key'' (Response 200 (Json JNull)) (- 716 / 100) (- 7852 / 100) =
     ([HttpGet METEODATA_URL (meteo_params ''key'' (- 716 / 100) (- 7852 / 100))],
      Inl TypeError)"
    by (simp add: fetch_data_no_object)
  then show ?thesis by (simp add: fetch_data_cached_def cache_data_def)
qed

text \<open>
  Claim C4: a call for the coordinates \<open>(lat, lon)\<close> either raises, and then leaves the
  cache as it was, or returns, and then the cache holds an entry for them, made at the
  time of that call when the call went to the network. Every later call for the same
  coordinates inside the window of 24 hours of that entry returns the value of the
  first call, makes no request and leaves the cache as it is, whatever the network
  would answer; a call at or after the end of the window makes one request again (when
  the key is present).
\<close>

theorem fetch_data_cached_window:
  assumes "fetch_data_cached API_KEY c0 t1 net1 lat lon = ((effs1, res1), c1)"
  shows "(res1 = Inl TypeError \<and> c1 = c0) \<or>
    (\<exists>en. c1 (lat, lon) = Some en \<and> res1 = Inr (stored en) \<and>
     (requests_made effs1 \<noteq> [] \<longrightarrow> created en = t1) \<and>
     (\<forall>t2 net2. t2 < created en + ttl_1d \<longrightarrow>
        snd (fst (fetch_data_cached API_KEY c1 t2 net2 lat lon)) = res1 \<and>
        requests_made (fst (fst (fetch_data_cached API_KEY c1 t2 net2 lat lon))) = [] \<and>
        snd (fetch_data_cached API_KEY c1 t2 net2 lat lon) = c1) \<and>
     (\<forall>t2 net2. created en + ttl_1d \<le> t2 \<and> API_KEY \<noteq> [] \<longrightarrow>
        requests_made (fst (fst (fetch_data_cached API_KEY c1 t2 net2 lat lon))) =
          [HttpGet METEODATA_URL (meteo_params API_KEY lat lon)]))"
  using assms
proof (cases rule: fetch_data_cached_first)
  case raised
  then show ?thesis by simp
next
  case (returned en)
  have within: "snd (fst (fetch_data_cached API_KEY c1 t2 net2 lat lon)) = res1 \<and>
        requests_made (fst (fst (fetch_data_cached API_KEY c1 t2 net2 lat lon))) = [] \<and>
        snd (fetch_data_cached API_KEY c1 t2 net2 lat lon) = c1"
    if "t2 < created en + ttl_1d" for t2 net2
    using that returned(1,2)
    by (simp add: fetch_data_cached_def cache_data_hit requests_made_messages)
  have after: "requests_made (fst (fst (fetch_data_cached API_KEY c1 t2 net2 lat lon))) =
          [HttpGet METEODATA_URL (meteo_params API_KEY lat lon)]"
    if "created en + ttl_1d \<le> t2" "API_KEY \<noteq> []" for t2 net2
  proof -
    have "fst (fst (fetch_data_cached API_KEY c1 t2 net2 lat lon)) =
        fst (fetch_data API_KEY net2 lat lon)"
      using that(1) returned(1)
      by (simp add: fetch_data_cached_def cache_data_miss split: prod.splits sum.splits)
    then show ?thesis using that(2) by (simp add: fetch_data_requests)
  qed
  from returned within after show ?thesis by blast
qed

lemma first_call_eq:
  "first_call =
     (([HttpGet METEODATA_URL (meteo_params ''key'' (- 716 / 100) (- 7852 / 100))],
       Inr (Some (JObject example_payload))),
      (\<lambda>k. None)((- 716 / 100, - 7852 / 100) \<mapsto>
        \<lparr>stored = Some (JObject example_payload), messages = [], created = 100\<rparr>))"
  by (simp add: first_call_def fetch_data_cached_def cache_data_def fetch_data_json
      example_payload_def)

theorem fetch_data_cached_window_witness:
  "snd (fst (fetch_data_cached ''key'' (snd first_call) 3700 ConnectionFailed
       (- 716 / 100) (- 7852 / 100))) = Inr (Some (JObject example_payload)) \<and>
   requests_made (fst (fst (fetch_data_cached ''key'' (snd first_call) 3700 ConnectionFailed
       (- 716 / 100) (- 7852 / 100)))) = [] \<and>
   requests_made (fst (fst (fetch_data_cached ''key'' (snd first_call) 86500 ConnectionFailed
       (- 716 / 100) (- 7852 / 100)))) =
     [HttpGet METEODATA_URL (meteo_params ''key'' (- 716 / 100) (- 7852 / 100))]"
proof -
  have call: "fetch_data_cached ''key'' (\<lambda>k. None) 100
       (Response 200 (Json (JObject example_payload))) (- 716 / 100) (- 7852 / 100) =
     ((fst (fst first_call), snd (fst first_call)), snd first_call)"
    by (simp add: first_call_def)
  have made: "requests_made (fst (fst first_call)) \<noteq> []"
    by (simp add: first_call_eq requests_made_def is_request_def)
  have res: "snd (fst first_call) = Inr (Some (JObject example_payload))"
    by (simp add: first_call_eq)
  from fetch_data_cached_window[OF call] res obtain en :: "decoded option entry" where
    fresh: "requests_made (fst (fst first_call)) \<noteq> [] \<longrightarrow> created en = 100"
    and within: "\<forall>t2 net2. t2 < created en + ttl_1d \<longrightarrow>
        snd (fst (fetch_data_cached ''key'' (snd first_call) t2 net2
          (- 716 / 100) (- 7852 / 100))) = snd (fst first_call) \<and>
        requests_made (fst (fst (fetch_data_cached ''key'' (snd first_call) t2 net2
          (- 716 / 100) (- 7852 / 100)))) = [] \<and>
        snd (fetch_data_cached ''key'' (snd first_call) t2 net2
          (- 716 / 100) (- 7852 / 100)) = snd first_call"
    and after: "\<forall>t2 net2. created en + ttl_1d \<le> t2 \<and> ''key'' \<noteq> [] \<longrightarrow>
        requests_made (fst (fst (fetch_data_cached ''key'' (snd first_call) t2 net2
          (- 716 / 100) (- 7852 / 100)))) =
          [HttpGet METEODATA_URL (meteo_params ''key'' (- 716 / 100) (- 7852 / 100))]"
    by (elim disjE exE conjE) (simp, blast)
  from fresh made have t: "created en = 100" by simp
  have "(3700::nat) < created en + ttl_1d" "created en + ttl_1d \<le> 86500 \<and> ''key'' \<noteq> []"
    by (simp_all add: t ttl_1d_def)
  with within[rule_format, of 3700 ConnectionFailed]
    after[rule_format, of 86500 ConnectionFailed] res
  show ?thesis by simp
qed

section \<open>Charts and metrics\<close>

lemma plot_lines_all:
  assumes "getitem df x_col = Inr x" "fits_column x"
    "\<forall>y \<in> set y_cols. \<exists>c. getitem df y = Inr c \<and> fits_column c"
  shows "plot_lines df x_col y_cols = Inr (map (\<lambda>y. Plot x (projr (getitem df y)) y) y_cols)"
  using assms by (induction y_cols) (auto simp: bind_err_def ax_plot_def)




text \<open>
  Claim C8, as stated: for every frame, \<^verbatim>\<open>plot_data\<close> with \<^verbatim>\<open>"bar"\<close> draws the first
  column of \<^verbatim>\<open>y_cols\<close>. The payload in which \<^verbatim>\<open>precipitation\<close> is present and
  \<^verbatim>\<open>null\<close> in every hour builds a frame whose precipitation column holds \<^verbatim>\<open>None\<close>
  objects; on that frame the bar chart of the overview raises \<^verbatim>\<open>TypeError\<close> and
  nothing is drawn.
\<close>

theorem plot_data_bar_counterexample:
  "transform_data example_parse exact_mean (JObject payload_null_precipitation) =
     Inr frame_null_precipitation \<and>
   plot_data frame_null_precipitation ''time'' (Lst [''precipitation''])
       LABEL_DATE LABEL_TOTAL_PREP ''bar'' DATE_FMT_OVERVIEW = Inl TypeError"
  by (simp add: frame_null_precipitation_built)
     (simp add: plot_data_def getitem_def bind_err_def ax_bar_def holds_none_def
      frame_null_precipitation_def)

text \<open>
  Claim C8, amended: for a frame that has the x column and a non-empty list of y
  columns, with numbers that float64 holds, \<^verbatim>\<open>plot_data\<close> with \<^verbatim>\<open>"line"\<close> draws one
  line per column of the list, in the order of the list, every line over the same x
  column and labelled with the name of its column (when the frame has every column of
  the list); with \<^verbatim>\<open>"bar"\<close> it draws one series only, the first column of the list,
  when neither that column nor the x column holds a \<^verbatim>\<open>None\<close> object, and it raises
  \<^verbatim>\<open>TypeError\<close> and draws nothing when one of them does.
\<close>

theorem plot_data_series:
  assumes "getitem df x_col = Inr x" "y_cols \<noteq> []" "fits_column x"
  shows
   "((\<forall>y \<in> set y_cols. \<exists>c. getitem df y = Inr c \<and> fits_column c) \<longrightarrow>
       plot_data df x_col (Lst y_cols) x_label y_label ''line'' date_format =
         Inr \<lparr>artists = map (\<lambda>y. Plot x (projr (getitem df y)) y) y_cols,
              xlabel = x_label, ylabel = y_label, major_formatter = date_format\<rparr>) \<and>
    (getitem df (hd y_cols) = Inr c \<and> fits_column c \<and> \<not> holds_none x \<and> \<not> holds_none c \<longrightarrow>
       plot_data df x_col (Lst y_cols) x_label y_label ''bar'' date_format =
         Inr \<lparr>artists = [Bar x c (hd y_cols)],
              xlabel = x_label, ylabel = y_label, major_formatter = date_format\<rparr>) \<and>
    (getitem df (hd y_cols) = Inr c \<and> (holds_none x \<or> holds_none c) \<longrightarrow>
       plot_data df x_col (Lst y_cols) x_label y_label ''bar'' date_format = Inl TypeError)"
proof (intro conjI impI)
  assume "\<forall>y \<in> set y_cols. \<exists>c. getitem df y = Inr c \<and> fits_column c"
  then show "plot_data df x_col (Lst y_cols) x_label y_label ''line'' date_format =
         Inr \<lparr>artists = map (\<lambda>y. Plot x (projr (getitem df y)) y) y_cols,
              xlabel = x_label, ylabel = y_label, major_formatter = date_format\<rparr>"
    using assms(1,3) by (simp add: plot_data_def plot_lines_all bind_err_def)
next
  assume "getitem df (hd y_cols) = Inr c \<and> fits_column c \<and> \<not> holds_none x \<and> \<not> holds_none c"
  then show "plot_data df x_col (Lst y_cols) x_label y_label ''bar'' date_format =
         Inr \<lparr>artists = [Bar x c (hd y_cols)],
              xlabel = x_label, ylabel = y_label, major_formatter = date_format\<rparr>"
    using assms by (cases y_cols) (simp_all add: plot_data_def bind_err_def ax_bar_def)
next
  assume "getitem df (hd y_cols) = Inr c \<and> (holds_none x \<or> holds_none c)"
  then show "plot_data df x_col (Lst y_cols) x_label y_label ''bar'' date_format =
      Inl TypeError"
    using assms by (cases y_cols) (auto simp: plot_data_def bind_err_def ax_bar_def)
qed

theorem plot_data_series_witness:
  "plot_data example_frame ''time'' (Lst [''temperature'', ''felttemperature''])
       LABEL_DATE LABEL_TEMP ''line'' DATE_FMT_OVERVIEW =
     Inr \<lparr>artists = [Plot (Stamps (time example_frame)) (Values (temperature example_frame))
                        ''temperature'',
                      Plot (Stamps (time example_frame)) (Values (felttemperature example_frame))
                        ''felttemperature''],
          xlabel = LABEL_DATE, ylabel = LABEL_TEMP, major_formatter = DATE_FMT_OVERVIEW\<rparr> \<and>
   plot_data example_frame ''time'' (Lst [''temperature'', ''felttemperature''])
       LABEL_DATE LABEL_TEMP ''bar'' DATE_FMT_OVERVIEW =
     Inr \<lparr>artists = [Bar (Stamps (time example_frame)) (Values (temperature example_frame))
                        ''temperature''],
          xlabel = LABEL_DATE, ylabel = LABEL_TEMP, major_formatter = DATE_FMT_OVERVIEW\<rparr>"
proof -
  have x: "getitem example_frame ''time'' = Inr (Stamps (time example_frame))"
    by (simp add: getitem_def)
  have ne: "[''temperature'', ''felttemperature''] \<noteq> []" by simp
  have fx: "fits_column (Stamps (time example_frame))" by (simp add: fits_column_def)
  have t: "getitem example_frame ''temperature'' = Inr (Values (temperature example_frame))"
    and f: "getitem example_frame ''felttemperature'' =
      Inr (Values (felttemperature example_frame))"
    by (simp_all add: getitem_def)
  have ft: "fits_column (Values (temperature example_frame))"
    and ff: "fits_column (Values (felttemperature example_frame))"
    by (simp_all add: fits_column_def example_frame_def fits_small)
  have cols: "\<forall>y \<in> set [''temperature'', ''felttemperature''].
      \<exists>c. getitem example_frame y = Inr c \<and> fits_column c"
    using t f ft ff by simp
  have first: "getitem example_frame (hd [''temperature'', ''felttemperature'']) =
      Inr (Values (temperature example_frame)) \<and>
      fits_column (Values (temperature example_frame)) \<and>
      \<not> holds_none (Stamps (time example_frame)) \<and>
      \<not> holds_none (Values (temperature example_frame))"
    using t ft by (simp add: holds_none_def example_frame_def)
  from plot_data_series[OF x ne fx, where c = "Values (temperature example_frame)"
      and x_label = LABEL_DATE and y_label = LABEL_TEMP and date_format = DATE_FMT_OVERVIEW]
    cols first
  show ?thesis by (simp add: t f)
qed

text \<open>
  Claim C10: \<^verbatim>\<open>plot_data\<close> with the bare string \<open>s\<close> for \<^verbatim>\<open>y_cols\<close> is
  \<^verbatim>\<open>plot_data\<close> with the list of the one element \<open>s\<close>, for every frame and all other
  arguments.
\<close>

theorem plot_data_str:
  "plot_data df x_col (Str s) x_label y_label graph_type date_format =
   plot_data df x_col (Lst [s]) x_label y_label graph_type date_format"
  by (simp add: plot_data_def)





end
